theory Spec2Isabelle
  imports Main
begin


section \<open>Python strings\<close>

text \<open>
  A Python \<^verbatim>\<open>str\<close> is a \<^typ>\<open>string\<close>. ASCII characters stand for themselves; a
  character outside ASCII is written as its UTF-8 bytes, none of which is an ASCII digit,
  an ASCII whitespace character or a punctuation mark of the patterns below. Whitespace
  and digits are the ASCII ones (\<^verbatim>\<open>str.isspace\<close>, \<^verbatim>\<open>\s\<close>, \<^verbatim>\<open>\d\<close>, \<^verbatim>\<open>str.isdigit\<close> restricted
  to ASCII).
\<close>

definition is_space :: "char \<Rightarrow> bool" where
  "is_space c = (c \<in> set [CHR 0x09, CHR 0x0A, CHR 0x0B, CHR 0x0C, CHR 0x0D,
                             CHR 0x1C, CHR 0x1D, CHR 0x1E, CHR 0x1F, CHR 0x20])"

definition is_digit :: "char \<Rightarrow> bool" where
  "is_digit c = (c \<in> set ''0123456789'')"

text \<open>\<^verbatim>\<open>s.strip()\<close> and \<^verbatim>\<open>s.rstrip(chars)\<close>.\<close>

definition strip :: "string \<Rightarrow> string" where
  "strip s = rev (dropWhile is_space (rev (dropWhile is_space s)))"

definition rstrip_chars :: "string \<Rightarrow> string \<Rightarrow> string" where
  "rstrip_chars cs s = rev (dropWhile (\<lambda>c. c \<in> set cs) (rev s))"

text \<open>\<^verbatim>\<open>s.split()\<close>: the maximal runs of non-whitespace characters. The first argument
  is the current word, reversed.\<close>

fun split_ws_from :: "string \<Rightarrow> string \<Rightarrow> string list" where
  "split_ws_from cur [] = (if cur = [] then [] else [rev cur])"
| "split_ws_from cur (c # cs) =
     (if is_space c
      then (if cur = [] then split_ws_from [] cs else rev cur # split_ws_from [] cs)
      else split_ws_from (c # cur) cs)"

definition py_split :: "string \<Rightarrow> string list" where
  "py_split s = split_ws_from [] s"

text \<open>\<^verbatim>\<open>s.split(c)\<close> for a one-character separator: never an empty list.\<close>

fun split_on_from :: "char \<Rightarrow> string \<Rightarrow> string \<Rightarrow> string list" where
  "split_on_from sep cur [] = [rev cur]"
| "split_on_from sep cur (c # cs) =
     (if c = sep then rev cur # split_on_from sep [] cs
      else split_on_from sep (c # cur) cs)"

definition split_on :: "char \<Rightarrow> string \<Rightarrow> string list" where
  "split_on sep s = split_on_from sep [] s"

text \<open>\<^verbatim>\<open>sep.join(xs)\<close>.\<close>

fun join :: "string \<Rightarrow> string list \<Rightarrow> string" where
  "join sep [] = []"
| "join sep [x] = x"
| "join sep (x # y # ys) = x @ sep @ join sep (y # ys)"

text \<open>\<^verbatim>\<open>s.startswith(p)\<close> and \<^verbatim>\<open>p in s\<close>.\<close>

definition startswith :: "string \<Rightarrow> string \<Rightarrow> bool" where
  "startswith s p = (take (length p) s = p)"

fun contains :: "string \<Rightarrow> string \<Rightarrow> bool" where
  "contains p [] = (p = [])"
| "contains p (c # cs) = (startswith (c # cs) p \<or> contains p cs)"

text \<open>\<^verbatim>\<open>s.lower()\<close> on the ASCII letters.\<close>

definition char_lower :: "char \<Rightarrow> char" where
  "char_lower c =
     (case map_of (zip ''ABCDEFGHIJKLMNOPQRSTUVWXYZ'' ''abcdefghijklmnopqrstuvwxyz'') c of
        Some l \<Rightarrow> l
      | None \<Rightarrow> c)"

definition lower :: "string \<Rightarrow> string" where
  "lower s = map char_lower s"

text \<open>\<^verbatim>\<open>s.isdigit()\<close>: non-empty and digits only.\<close>

definition isdigit :: "string \<Rightarrow> bool" where
  "isdigit s = (s \<noteq> [] \<and> list_all is_digit s)"

text \<open>The value of a string of decimal digits: what \<^verbatim>\<open>int(s)\<close> returns where the source
  has made sure that \<^verbatim>\<open>s\<close> is all digits (a \<^verbatim>\<open>\d+\<close> group, or \<^verbatim>\<open>s.isdigit()\<close>).\<close>

definition digit_val :: "char \<Rightarrow> int" where
  "digit_val c = int (of_char c) - 48"

definition digits_val :: "string \<Rightarrow> int" where
  "digits_val s = foldl (\<lambda>a c. 10 * a + digit_val c) 0 s"

text \<open>\<^verbatim>\<open>int(s)\<close> on an arbitrary string: surrounding whitespace is dropped, one sign is
  allowed, and the digits may be grouped by single underscores. \<open>None\<close> is
  \<^verbatim>\<open>ValueError\<close>.\<close>

definition int_digits :: "string \<Rightarrow> int option" where
  "int_digits t =
     (let gs = split_on (CHR ''_'') t
      in if list_all isdigit gs then Some (digits_val (concat gs)) else None)"

definition py_int :: "string \<Rightarrow> int option" where
  "py_int s =
     (case strip s of
        [] \<Rightarrow> None
      | c # r \<Rightarrow>
          if c = CHR ''-'' then map_option uminus (int_digits r)
          else if c = CHR ''+'' then int_digits r
          else int_digits (c # r))"

text \<open>\<^verbatim>\<open>s.replace(old, "")\<close> for a non-empty \<^verbatim>\<open>old\<close>: the occurrences are removed from
  left to right, without overlap.\<close>

function remove_all :: "string \<Rightarrow> string \<Rightarrow> string" where
  "remove_all old [] = []"
| "remove_all old (c # cs) =
     (if old \<noteq> [] \<and> startswith (c # cs) old
      then remove_all old (drop (length old) (c # cs))
      else c # remove_all old cs)"
  by pat_completeness auto
termination
  by (relation "measure (\<lambda>(old, s). length s)") auto

section \<open>Regular expressions\<close>

text \<open>
  Every pattern of the two scrapers is a sequence of single-character classes, each with
  a quantifier, so a pattern is a list of items. \<open>re_run\<close> is the backtracking matcher
  of Python's \<^verbatim>\<open>re\<close>: a greedy quantifier tries the longest repetition first, a lazy one
  the shortest first, and the first complete match found is the result. The result holds
  the text each item matched; a group of the pattern is one of these texts.
  With \<open>full\<close> the match has to end at the end of the string (\<^verbatim>\<open>fullmatch\<close>).
\<close>

datatype cclass = Lit char | AnyChar | Space | Digit

datatype quant = One | Opt | Star | Plus | LazyStar | LazyPlus

type_synonym item = "quant \<times> cclass"

fun cmatch :: "cclass \<Rightarrow> char \<Rightarrow> bool" where
  "cmatch (Lit a) c = (c = a)"
| "cmatch AnyChar c = (c \<noteq> CHR 0x0A)"
| "cmatch Space c = is_space c"
| "cmatch Digit c = is_digit c"

fun grow :: "char \<Rightarrow> string list \<Rightarrow> string list" where
  "grow x [] = []"
| "grow x (g # gs) = (x # g) # gs"

fun re_run :: "bool \<Rightarrow> item list \<Rightarrow> string \<Rightarrow> string list option" where
  "re_run full [] s = (if full \<and> s \<noteq> [] then None else Some [])"
| "re_run full ((One, c) # r) [] = None"
| "re_run full ((One, c) # r) (x # xs) =
     (if cmatch c x then map_option ((#) [x]) (re_run full r xs) else None)"
| "re_run full ((Opt, c) # r) [] = map_option ((#) []) (re_run full r [])"
| "re_run full ((Opt, c) # r) (x # xs) =
     (if cmatch c x
      then (case re_run full r xs of
              Some gs \<Rightarrow> Some ([x] # gs)
            | None \<Rightarrow> map_option ((#) []) (re_run full r (x # xs)))
      else map_option ((#) []) (re_run full r (x # xs)))"
| "re_run full ((Star, c) # r) [] = map_option ((#) []) (re_run full r [])"
| "re_run full ((Star, c) # r) (x # xs) =
     (if cmatch c x
      then (case re_run full ((Star, c) # r) xs of
              Some gs \<Rightarrow> Some (grow x gs)
            | None \<Rightarrow> map_option ((#) []) (re_run full r (x # xs)))
      else map_option ((#) []) (re_run full r (x # xs)))"
| "re_run full ((Plus, c) # r) [] = None"
| "re_run full ((Plus, c) # r) (x # xs) =
     (if cmatch c x then map_option (grow x) (re_run full ((Star, c) # r) xs) else None)"
| "re_run full ((LazyStar, c) # r) [] = map_option ((#) []) (re_run full r [])"
| "re_run full ((LazyStar, c) # r) (x # xs) =
     (case re_run full r (x # xs) of
        Some gs \<Rightarrow> Some ([] # gs)
      | None \<Rightarrow>
          (if cmatch c x then map_option (grow x) (re_run full ((LazyStar, c) # r) xs)
           else None))"
| "re_run full ((LazyPlus, c) # r) [] = None"
| "re_run full ((LazyPlus, c) # r) (x # xs) =
     (if cmatch c x then map_option (grow x) (re_run full ((LazyStar, c) # r) xs)
      else None)"

text \<open>\<^verbatim>\<open>re.match\<close>, \<^verbatim>\<open>re.fullmatch\<close> and \<^verbatim>\<open>re.search\<close>; a search returns the start of the
  leftmost match with its texts.\<close>

definition re_match :: "item list \<Rightarrow> string \<Rightarrow> string list option" where
  "re_match p s = re_run False p s"

definition re_fullmatch :: "item list \<Rightarrow> string \<Rightarrow> string list option" where
  "re_fullmatch p s = re_run True p s"

fun re_search_from :: "item list \<Rightarrow> nat \<Rightarrow> string \<Rightarrow> (nat \<times> string list) option" where
  "re_search_from p i [] = map_option (Pair i) (re_run False p [])"
| "re_search_from p i (c # cs) =
     (case re_run False p (c # cs) of
        Some gs \<Rightarrow> Some (i, gs)
      | None \<Rightarrow> re_search_from p (Suc i) cs)"

definition re_search :: "item list \<Rightarrow> string \<Rightarrow> (nat \<times> string list) option" where
  "re_search p s = re_search_from p 0 s"

definition lits :: "string \<Rightarrow> item list" where
  "lits s = map (\<lambda>c. (One, Lit c)) s"

section \<open>The parsed document\<close>

text \<open>
  The document tree that BeautifulSoup builds: a text node (\<^verbatim>\<open>NavigableString\<close>) or a tag
  with its name, attributes and children. The soup itself is the root tag. Comments,
  scripts and the other special string kinds are not part of the model. Equality of
  nodes is structural, as \<^verbatim>\<open>Tag.__eq__\<close> is.

  An element of a soup is handled by its path (the child indices from the root) together
  with the node found there.
\<close>

datatype node = NavigableString string | Tag string "(string \<times> string) list" "node list"

type_synonym path = "nat list"

type_synonym element = "path \<times> node"

fun is_tag :: "node \<Rightarrow> bool" where
  "is_tag (Tag n a cs) = True"
| "is_tag (NavigableString s) = False"

fun named :: "string \<Rightarrow> node \<Rightarrow> bool" where
  "named nm (Tag n a cs) = (n = nm)"
| "named nm (NavigableString s) = False"

fun attr :: "node \<Rightarrow> string \<Rightarrow> string option" where
  "attr (Tag n a cs) k = map_of a k"
| "attr (NavigableString s) k = None"

fun node_at :: "node \<Rightarrow> path \<Rightarrow> node option" where
  "node_at n [] = Some n"
| "node_at (NavigableString s) (i # p) = None"
| "node_at (Tag n a cs) (i # p) = (if i < length cs then node_at (cs ! i) p else None)"

text \<open>The descendants of a node in document order (\<^verbatim>\<open>.descendants\<close>), each with its
  path below the node.\<close>

fun descendants :: "node \<Rightarrow> element list"
  and descendants_from :: "nat \<Rightarrow> node list \<Rightarrow> element list" where
  "descendants (NavigableString s) = []"
| "descendants (Tag n a cs) = descendants_from 0 cs"
| "descendants_from i [] = []"
| "descendants_from i (c # cs) =
     ([i], c) # map (\<lambda>(p, d). (i # p, d)) (descendants c) @ descendants_from (Suc i) cs"

definition sub_elements :: "element \<Rightarrow> element list" where
  "sub_elements el = map (\<lambda>(q, d). (fst el @ q, d)) (descendants (snd el))"

definition root :: "node \<Rightarrow> element" where
  "root soup = ([], soup)"

text \<open>\<^verbatim>\<open>el.find_all(name)\<close> and \<^verbatim>\<open>el.find(name)\<close>: the tags of that name below the
  element, in document order, and the first of them.\<close>

definition find_all :: "element \<Rightarrow> string \<Rightarrow> element list" where
  "find_all el nm = filter (\<lambda>(q, d). named nm d) (sub_elements el)"

definition first_of :: "'a list \<Rightarrow> 'a option" where
  "first_of xs = (case xs of [] \<Rightarrow> None | x # _ \<Rightarrow> Some x)"

definition find_tag :: "element \<Rightarrow> string \<Rightarrow> element option" where
  "find_tag el nm = first_of (find_all el nm)"

text \<open>\<^verbatim>\<open>el.find_all(string=f)\<close> and \<^verbatim>\<open>el.find(string=f)\<close>: the text nodes below the
  element whose text satisfies \<^verbatim>\<open>f\<close>.\<close>

fun text_satisfies :: "(string \<Rightarrow> bool) \<Rightarrow> node \<Rightarrow> bool" where
  "text_satisfies f (NavigableString s) = f s"
| "text_satisfies f (Tag n a cs) = False"

definition find_all_strings :: "element \<Rightarrow> (string \<Rightarrow> bool) \<Rightarrow> element list" where
  "find_all_strings el f = filter (\<lambda>(q, d). text_satisfies f d) (sub_elements el)"

definition find_string :: "element \<Rightarrow> (string \<Rightarrow> bool) \<Rightarrow> element option" where
  "find_string el f = first_of (find_all_strings el f)"

fun string_of :: "node \<Rightarrow> string" where
  "string_of (NavigableString s) = s"
| "string_of (Tag n a cs) = []"

text \<open>The text nodes of a node in document order; \<^verbatim>\<open>.stripped_strings\<close> strips each
  and drops the empty ones; \<^verbatim>\<open>get_text(sep, strip=...)\<close> joins them.\<close>

fun all_strings :: "node \<Rightarrow> string list" where
  "all_strings (NavigableString s) = [s]"
| "all_strings (Tag n a cs) = concat (map all_strings cs)"

definition stripped_strings :: "node \<Rightarrow> string list" where
  "stripped_strings n = filter (\<lambda>t. t \<noteq> []) (map strip (all_strings n))"

definition get_text :: "string \<Rightarrow> bool \<Rightarrow> node \<Rightarrow> string" where
  "get_text sep strp n = join sep (if strp then stripped_strings n else all_strings n)"

text \<open>\<^verbatim>\<open>.parent\<close>, \<^verbatim>\<open>.next_sibling\<close> and \<^verbatim>\<open>.next_siblings\<close> (text nodes included),
  \<^verbatim>\<open>.find_next_sibling()\<close> (the next sibling that is a tag).\<close>

definition parent :: "node \<Rightarrow> element \<Rightarrow> element option" where
  "parent soup el =
     (if fst el = [] then None
      else map_option (Pair (butlast (fst el))) (node_at soup (butlast (fst el))))"

definition next_siblings :: "node \<Rightarrow> element \<Rightarrow> element list" where
  "next_siblings soup el =
     (if fst el = [] then []
      else (case node_at soup (butlast (fst el)) of
              Some (Tag n a cs) \<Rightarrow>
                map (\<lambda>i. (butlast (fst el) @ [i], cs ! i)) [Suc (last (fst el)) ..< length cs]
            | _ \<Rightarrow> []))"

definition next_sibling :: "node \<Rightarrow> element \<Rightarrow> element option" where
  "next_sibling soup el = first_of (next_siblings soup el)"

definition find_next_sibling :: "node \<Rightarrow> element \<Rightarrow> element option" where
  "find_next_sibling soup el = first_of (filter (\<lambda>(q, d). is_tag d) (next_siblings soup el))"

text \<open>\<^verbatim>\<open>.previous_elements\<close>: everything before the element in document order, the
  nearest first. The enclosing tags of the element are among them; the soup object
  itself is not listed.\<close>

definition previous_elements :: "node \<Rightarrow> element \<Rightarrow> element list" where
  "previous_elements soup el = rev (takeWhile (\<lambda>(q, d). q \<noteq> fst el) (descendants soup))"

text \<open>\<^verbatim>\<open>el.find_all_previous(string=True, limit=k)\<close>: the \<open>k\<close> text nodes nearest before
  the element, the nearest first; \<^verbatim>\<open>el.find_all_previous()\<close>: every tag before it.\<close>

definition find_all_previous_strings :: "node \<Rightarrow> element \<Rightarrow> nat \<Rightarrow> string list" where
  "find_all_previous_strings soup el k =
     take k (map (\<lambda>(q, d). string_of d)
               (filter (\<lambda>(q, d). \<not> is_tag d) (previous_elements soup el)))"

definition find_all_previous :: "node \<Rightarrow> element \<Rightarrow> node list" where
  "find_all_previous soup el = map snd (filter (\<lambda>(q, d). is_tag d) (previous_elements soup el))"

text \<open>Truth value of an element in a condition: a tag is always true, a text node is
  true when it is not empty.\<close>

fun truthy :: "node \<Rightarrow> bool" where
  "truthy (Tag n a cs) = True"
| "truthy (NavigableString s) = (s \<noteq> [])"

section \<open>The match scraper (demo\_scraper.py)\<close>

datatype error = RuntimeError string | IndexError | ValueError

record GoalEvent =
  team :: string
  player :: string
  minute :: int

record PlayerEvent =
  ev_minute :: int
  raw :: string

record PlayerInfo =
  name :: string
  shirt_number :: "int option"
  position :: "string option"
  is_captain :: bool
  is_starting :: bool
  events :: "PlayerEvent list"

record datetime =
  dt_year :: int
  dt_month :: int
  dt_day :: int
  dt_hour :: int
  dt_minute :: int

text \<open>A \<^verbatim>\<open>dict\<close> keeps its keys in the order of their first insertion; an assignment to
  a key that is present replaces the value where it stands.\<close>

type_synonym ('k, 'v) dict = "('k \<times> 'v) list"

fun dict_set :: "('k, 'v) dict \<Rightarrow> 'k \<Rightarrow> 'v \<Rightarrow> ('k, 'v) dict" where
  "dict_set [] k v = [(k, v)]"
| "dict_set ((k', v') # d) k v = (if k' = k then (k, v) # d else (k', v') # dict_set d k v)"

record MatchData =
  url :: string
  competition :: "string option"
  home_team :: string
  away_team :: string
  home_score :: int
  away_score :: int
  venue :: "string option"
  city :: "string option"
  date_time :: "datetime option"
  goals :: "GoalEvent list"
  lineups :: "(string, PlayerInfo list) dict"

text \<open>The dictionary \<^verbatim>\<open>_parse_header_info\<close> returns.\<close>

record header_info =
  hdr_home_team :: string
  hdr_away_team :: string
  hdr_home_score :: int
  hdr_away_score :: int
  hdr_competition :: string

subsection \<open>Patterns\<close>

text \<open>\<^verbatim>\<open>(\d+)'\<close>: group 1 is text 0.\<close>

definition GOAL_MINUTE_RE :: "item list" where
  "GOAL_MINUTE_RE = [(Plus, Digit), (One, Lit (CHR 0x27))]"

definition digits :: "nat \<Rightarrow> item list" where
  "digits k = replicate k (One, Digit)"

text \<open>\<^verbatim>\<open>(\d{2}\.\d{2}\.\d{4}\.)\s+(\d{2}:\d{2})\<close>: group 1 is texts 0 to 10, group 2 is
  texts 12 to 16.\<close>

definition DATETIME_RE :: "item list" where
  "DATETIME_RE = digits 2 @ lits ''.'' @ digits 2 @ lits ''.'' @ digits 4 @ lits ''.''
                 @ [(Plus, Space)] @ digits 2 @ lits '':'' @ digits 2"

text \<open>\<^verbatim>\<open>(.+?)\s*-\s*(.+?)\s+(\d+):(\d+),\s*(.+)\<close>: the groups are texts 0, 4, 6, 8
  and 11.\<close>

definition HEADER_RE :: "item list" where
  "HEADER_RE = [(LazyPlus, AnyChar), (Star, Space), (One, Lit (CHR ''-'')), (Star, Space),
                (LazyPlus, AnyChar), (Plus, Space), (Plus, Digit), (One, Lit (CHR '':'')),
                (Plus, Digit), (One, Lit (CHR '','')), (Star, Space), (Plus, AnyChar)]"

text \<open>\<^verbatim>\<open>(.+?)\s*-\s*(.+?)\s+\d+:\d+\<close>, of \<^verbatim>\<open>_iterate_team_blocks\<close>: the groups are
  texts 0 and 4.\<close>

definition TEAMS_RE :: "item list" where
  "TEAMS_RE = [(LazyPlus, AnyChar), (Star, Space), (One, Lit (CHR ''-'')), (Star, Space),
               (LazyPlus, AnyChar), (Plus, Space), (Plus, Digit), (One, Lit (CHR '':'')),
               (Plus, Digit)]"

subsection \<open>\_parse\_header\_info\<close>

text \<open>The title: the text of the first \<^verbatim>\<open>h1\<close>, its whitespace collapsed.\<close>

definition collapse_ws :: "string \<Rightarrow> string" where
  "collapse_ws s = join '' '' (py_split s)"

definition parse_header_info :: "node \<Rightarrow> error + header_info" where
  "parse_header_info soup =
     (case find_tag (root soup) ''h1'' of
        None \<Rightarrow> Inl (RuntimeError ''Could not find match title <h1>'')
      | Some h1 \<Rightarrow>
          (let title = collapse_ws (get_text '' '' True (snd h1))
           in case re_match HEADER_RE title of
                None \<Rightarrow> Inl (RuntimeError (''Unexpected match title format: '' @ title))
              | Some m \<Rightarrow>
                  Inr \<lparr>hdr_home_team = strip (m ! 0),
                       hdr_away_team = strip (m ! 4),
                       hdr_home_score = digits_val (m ! 6),
                       hdr_away_score = digits_val (m ! 8),
                       hdr_competition = strip (m ! 11)\<rparr>))"

subsection \<open>\_parse\_datetime\_and\_venue\<close>

definition leap_year :: "int \<Rightarrow> bool" where
  "leap_year y = (y mod 4 = 0 \<and> (y mod 100 \<noteq> 0 \<or> y mod 400 = 0))"

definition days_in_month :: "int \<Rightarrow> int \<Rightarrow> int" where
  "days_in_month y m =
     (if m = 2 then (if leap_year y then 29 else 28)
      else if m = 4 \<or> m = 6 \<or> m = 9 \<or> m = 11 then 30 else 31)"

text \<open>\<^verbatim>\<open>datetime.strptime(f"{date_part} {time_part}", "%d.%m.%Y. %H:%M")\<close> on the two
  texts \<open>DATETIME_RE\<close> captured: a two-digit day, month, hour and minute and a four-digit
  year. A field out of its range, or a day the month does not have, is
  \<^verbatim>\<open>ValueError\<close>.\<close>

definition strptime :: "string \<Rightarrow> string \<Rightarrow> error + datetime" where
  "strptime date_part time_part =
     (let d = digits_val (take 2 date_part);
          m = digits_val (take 2 (drop 3 date_part));
          y = digits_val (take 4 (drop 6 date_part));
          H = digits_val (take 2 time_part);
          M = digits_val (take 2 (drop 3 time_part))
      in if 1 \<le> m \<and> m \<le> 12 \<and> 1 \<le> y \<and> 1 \<le> d \<and> d \<le> days_in_month y m \<and> H \<le> 23 \<and> M \<le> 59
         then Inr \<lparr>dt_year = y, dt_month = m, dt_day = d, dt_hour = H, dt_minute = M\<rparr>
         else Inl ValueError)"

definition parse_datetime_and_venue ::
  "node \<Rightarrow> error + (string option \<times> string option \<times> datetime option)" where
  "parse_datetime_and_venue soup =
     (case find_all_strings (root soup) (\<lambda>t. re_search DATETIME_RE t \<noteq> None) of
        [] \<Rightarrow> Inr (None, None, None)
      | node0 # _ \<Rightarrow>
          (let s = strip (string_of (snd node0))
           in case re_search DATETIME_RE s of
                None \<Rightarrow> Inr (None, None, None)
              | Some (start, m) \<Rightarrow>
                  (case strptime (concat (take 11 m)) (concat (drop 12 m)) of
                     Inl e \<Rightarrow> Inl e
                   | Inr dt \<Rightarrow>
                       (let before_txt = strip (rstrip_chars '', '' (take start s));
                            parts = map strip (split_on (CHR '','') before_txt)
                        in if before_txt = [] then Inr (None, None, Some dt)
                           else if length parts = 1 then Inr (Some (parts ! 0), None, Some dt)
                           else Inr (Some (parts ! 0), Some (parts ! 1), Some dt)))))"

subsection \<open>\_parse\_goals\_block\<close>

text \<open>The walk from the parent of the referees node: at most 120 steps, each one
  collecting the stripped strings of the current element and moving to its next sibling
  (from a text node: to the next sibling of its parent).\<close>

fun collect_candidates :: "node \<Rightarrow> nat \<Rightarrow> element option \<Rightarrow> string list" where
  "collect_candidates soup 0 current = []"
| "collect_candidates soup (Suc k) None = []"
| "collect_candidates soup (Suc k) (Some cur) =
     (if truthy (snd cur)
      then stripped_strings (snd cur)
           @ collect_candidates soup k
               (if is_tag (snd cur) then next_sibling soup cur
                else (case parent soup cur of
                        None \<Rightarrow> None
                      | Some par \<Rightarrow> next_sibling soup par))
      else [])"

text \<open>The scan of the collected tokens (the second loop of \<^verbatim>\<open>_parse_goals_block\<close>).
  The state of the loop is the pending scorer \<^verbatim>\<open>last_name\<close> and the list \<^verbatim>\<open>goals\<close>;
  \<open>goal_step\<close> is one pass of the loop body.\<close>

definition goal_step ::
  "string option \<times> GoalEvent list \<Rightarrow> string \<Rightarrow> string option \<times> GoalEvent list" where
  "goal_step st token =
     (case re_fullmatch GOAL_MINUTE_RE token of
        Some m \<Rightarrow>
          (case fst st of
             None \<Rightarrow> st
           | Some last_name \<Rightarrow>
               if last_name \<noteq> []
               then (None, snd st @ [\<lparr>team = [], player = last_name,
                                       minute = digits_val (m ! 0)\<rparr>])
               else st)
      | None \<Rightarrow> if \<not> startswith token ''Suci'' then (Some token, snd st) else st)"

definition scan_goal_tokens :: "string list \<Rightarrow> GoalEvent list" where
  "scan_goal_tokens candidates = snd (foldl goal_step (None, []) candidates)"

definition parse_goals_block :: "node \<Rightarrow> (string, string) dict \<Rightarrow> GoalEvent list" where
  "parse_goals_block soup teams =
     (case find_string (root soup) (contains ''Suci:'') of
        None \<Rightarrow> []
      | Some referees_node \<Rightarrow>
          if \<not> truthy (snd referees_node) then []
          else scan_goal_tokens
                 (collect_candidates soup 120 (parent soup referees_node)))"

subsection \<open>\_iterate\_team\_blocks\<close>

definition iterate_team_blocks :: "node \<Rightarrow> element list" where
  "iterate_team_blocks soup =
     (case find_tag (root soup) ''h1'' of
        None \<Rightarrow> []
      | Some h1 \<Rightarrow>
          (case re_match TEAMS_RE (get_text '' '' True (snd h1)) of
             None \<Rightarrow> []
           | Some m \<Rightarrow>
               concat (map (\<lambda>team_name.
                          case find_string (root soup) (\<lambda>t. strip t = team_name) of
                            None \<Rightarrow> []
                          | Some nd \<Rightarrow>
                              if \<not> truthy (snd nd) then []
                              else (case parent soup nd of None \<Rightarrow> [] | Some par \<Rightarrow> [par]))
                        [strip (m ! 0), strip (m ! 4)])))"

subsection \<open>\_parse\_players\_from\_team\_block\<close>

text \<open>The loop over \<^verbatim>\<open>reversed(prev_texts)\<close>: the first text that is all digits once
  stripped.\<close>

fun first_numeric :: "string list \<Rightarrow> int option" where
  "first_numeric [] = None"
| "first_numeric (t # ts) =
     (if isdigit (strip t) then Some (digits_val (strip t)) else first_numeric ts)"

definition shirt_number_of :: "node \<Rightarrow> element \<Rightarrow> int option" where
  "shirt_number_of soup h3 = first_numeric (rev (find_all_previous_strings soup h3 3))"

text \<open>The first of the following tag siblings whose stripped text is not empty.\<close>

fun first_with_text :: "element list \<Rightarrow> element option" where
  "first_with_text [] = None"
| "first_with_text (e # es) =
     (if get_text [] True (snd e) = [] then first_with_text es else Some e)"

definition position_of :: "node \<Rightarrow> element \<Rightarrow> string option" where
  "position_of soup h3 =
     (case first_with_text (filter (\<lambda>(q, d). is_tag d) (next_siblings soup h3)) of
        None \<Rightarrow> None
      | Some nxt \<Rightarrow>
          (let pos_text = get_text '' '' True (snd nxt)
           in if pos_text \<noteq> [] then Some pos_text else None))"

definition minute_events :: "node \<Rightarrow> PlayerEvent list" where
  "minute_events sib =
     List.map_filter
       (\<lambda>t. map_option (\<lambda>m. \<lparr>ev_minute = digits_val (m ! 0), raw = t\<rparr>)
              (re_fullmatch GOAL_MINUTE_RE t))
       (stripped_strings sib)"

definition events_of :: "node \<Rightarrow> element \<Rightarrow> PlayerEvent list" where
  "events_of soup h3 =
     concat (map (\<lambda>(q, sib). if is_tag sib then minute_events sib else [])
               (takeWhile (\<lambda>(q, sib). \<not> named ''h3'' sib) (next_siblings soup h3)))"

definition bench_text :: string where
  "bench_text = ''Pri'' @ [CHR 0xC4, CHR 0x8D] @ ''uvni igra'' @ [CHR 0xC4, CHR 0x8D] @ ''i''"

definition is_starting_of :: "node \<Rightarrow> element \<Rightarrow> element \<Rightarrow> bool" where
  "is_starting_of soup team_block h3 =
     (case find_string team_block (contains bench_text) of
        None \<Rightarrow> True
      | Some bench_marker \<Rightarrow>
          (case parent soup bench_marker of
             None \<Rightarrow> True
           | Some bench_parent \<Rightarrow>
               \<not> (truthy (snd bench_marker) \<and> find_all bench_parent ''h3'' \<noteq> []
                  \<and> snd bench_parent \<in> set (find_all_previous soup h3))))"

definition parse_player :: "node \<Rightarrow> element \<Rightarrow> element \<Rightarrow> PlayerInfo" where
  "parse_player soup team_block h3 =
     (let name_text = get_text '' '' True (snd h3)
      in \<lparr>name = strip (remove_all ''(C)'' name_text),
          shirt_number = shirt_number_of soup h3,
          position = position_of soup h3,
          is_captain = contains ''(C)'' name_text,
          is_starting = is_starting_of soup team_block h3,
          events = events_of soup h3\<rparr>)"

definition parse_players_from_team_block :: "node \<Rightarrow> element \<Rightarrow> PlayerInfo list" where
  "parse_players_from_team_block soup team_block =
     map (parse_player soup team_block) (find_all team_block ''h3'')"

subsection \<open>\_attach\_goal\_teams\<close>

definition setdefault :: "('k \<rightharpoonup> 'v) \<Rightarrow> 'k \<Rightarrow> 'v \<Rightarrow> ('k \<rightharpoonup> 'v)" where
  "setdefault m k v = (case m k of None \<Rightarrow> m(k \<mapsto> v) | Some _ \<Rightarrow> m)"

fun register_players :: "(string \<rightharpoonup> string) \<Rightarrow> string \<Rightarrow> PlayerInfo list \<Rightarrow> (string \<rightharpoonup> string)" where
  "register_players m tm [] = m"
| "register_players m tm (p # ps) = register_players (setdefault m (name p) tm) tm ps"

fun player_to_team :: "(string \<rightharpoonup> string) \<Rightarrow> (string, PlayerInfo list) dict \<Rightarrow> (string \<rightharpoonup> string)" where
  "player_to_team m [] = m"
| "player_to_team m ((tm, plist) # rest) = player_to_team (register_players m tm plist) rest"

definition attach_goal_teams ::
  "GoalEvent list \<Rightarrow> (string, PlayerInfo list) dict \<Rightarrow> GoalEvent list" where
  "attach_goal_teams gs lu =
     map (\<lambda>g. g\<lparr>team := (case player_to_team Map.empty lu (player g) of
                          Some t \<Rightarrow> t
                        | None \<Rightarrow> ''Unknown'')\<rparr>) gs"

subsection \<open>scrape\_match\<close>

text \<open>\<open>scrape_match\<close> on the soup that \<^verbatim>\<open>_get_soup(url)\<close> returned. The
  \<^verbatim>\<open>print\<close> of \<^verbatim>\<open>team_blocks[0]\<close> stands before the two guarded assignments.\<close>

definition scrape_match :: "string \<Rightarrow> node \<Rightarrow> error + MatchData" where
  "scrape_match u soup =
     (case parse_header_info soup of
        Inl e \<Rightarrow> Inl e
      | Inr header \<Rightarrow>
          (case parse_datetime_and_venue soup of
             Inl e \<Rightarrow> Inl e
           | Inr (v, c, dt) \<Rightarrow>
               (let gs = parse_goals_block soup
                           [(''home'', hdr_home_team header), (''away'', hdr_away_team header)];
                    team_blocks = iterate_team_blocks soup;
                    lu0 = dict_set (dict_set [] (hdr_home_team header) [])
                            (hdr_away_team header) []
                in if team_blocks = [] then Inl IndexError
                   else
                     (let lu1 = (if length team_blocks \<ge> 1
                                 then dict_set lu0 (hdr_home_team header)
                                        (parse_players_from_team_block soup (team_blocks ! 0))
                                 else lu0);
                          lu2 = (if length team_blocks \<ge> 2
                                 then dict_set lu1 (hdr_away_team header)
                                        (parse_players_from_team_block soup (team_blocks ! 1))
                                 else lu1)
                      in Inr \<lparr>url = u,
                              competition = Some (hdr_competition header),
                              home_team = hdr_home_team header,
                              away_team = hdr_away_team header,
                              home_score = hdr_home_score header,
                              away_score = hdr_away_score header,
                              venue = v,
                              city = c,
                              date_time = dt,
                              goals = attach_goal_teams gs lu2,
                              lineups = lu2\<rparr>))))"

section \<open>The competition scraper (scraper.py)\<close>

text \<open>\<^verbatim>\<open>urljoin(base, href)\<close> is kept symbolic: the address that the two texts
  resolve to.\<close>

datatype address = UrlJoin string string

record team_entry =
  t_name :: string
  t_url :: "address option"
  t_crest :: "address option"
  t_hns_id :: "string option"

record standing =
  st_position :: int
  st_team :: string
  st_played :: int
  st_wins :: int
  st_draws :: int
  st_losses :: int
  st_goals_for :: int
  st_goals_against :: int
  st_points :: int

record 'dt fixture =
  fx_date :: "'dt option"
  fx_home :: string
  fx_away :: string
  fx_home_goals :: "int option"
  fx_away_goals :: "int option"
  fx_venue :: "string option"
  fx_match_url :: "string option"

subsection \<open>parse\_teams\<close>

text \<open>\<^verbatim>\<open>re.search(r"/klub|^NK |^HNK |^ONK |^B\<dots>K |^GNK |^NK ", text, re.I)\<close>: the text
  holds \<^verbatim>\<open>/klub\<close> or starts with one of the club prefixes, letter case ignored. The
  letter between B and K has the bytes C5 A0 as a capital and C5 A1 as a small letter.\<close>

definition club_prefixes_ci :: "string list" where
  "club_prefixes_ci =
     [''nk '', ''hnk '', ''onk '', ''b'' @ [CHR 0xC5, CHR 0xA0] @ ''k '',
      ''b'' @ [CHR 0xC5, CHR 0xA1] @ ''k '', ''gnk '', ''nk '']"

definition is_team_text :: "string \<Rightarrow> bool" where
  "is_team_text txt =
     (contains ''/klub'' (lower txt) \<or> list_ex (startswith (lower txt)) club_prefixes_ci)"

text \<open>\<^verbatim>\<open>/klub/(\d+)\<close>: group 1 is text 6.\<close>

definition KLUB_ID_RE :: "item list" where
  "KLUB_ID_RE = lits ''/klub/'' @ [(Plus, Digit)]"

text \<open>One pass of the loop over the anchors: the key and the entry stored for the
  anchor, or \<open>None\<close> when the anchor is passed over.\<close>

definition team_of_anchor :: "string \<Rightarrow> element \<Rightarrow> (string \<times> team_entry) option" where
  "team_of_anchor base_url a =
     (case attr (snd a) ''href'' of
        None \<Rightarrow> None
      | Some href \<Rightarrow>
          (let txt = get_text '' '' True (snd a)
           in if txt = [] then None
              else if is_team_text txt \<or> contains ''/klub'' href
              then Some (txt,
                     \<lparr>t_name = txt,
                      t_url = Some (UrlJoin base_url href),
                      t_crest = (case find_tag a ''img'' of
                                   None \<Rightarrow> None
                                 | Some img \<Rightarrow>
                                     (case attr (snd img) ''src'' of
                                        None \<Rightarrow> None
                                      | Some src \<Rightarrow>
                                          if src \<noteq> [] then Some (UrlJoin base_url src)
                                          else None)),
                      t_hns_id = (case re_search KLUB_ID_RE href of
                                    Some (i, m) \<Rightarrow> Some (m ! 6)
                                  | None \<Rightarrow> Some href)\<rparr>)
              else None))"

fun collect_teams ::
  "string \<Rightarrow> (string, team_entry) dict \<Rightarrow> element list \<Rightarrow> (string, team_entry) dict" where
  "collect_teams base_url teams [] = teams"
| "collect_teams base_url teams (a # rest) =
     (case team_of_anchor base_url a of
        None \<Rightarrow> collect_teams base_url teams rest
      | Some (k, v) \<Rightarrow> collect_teams base_url (dict_set teams k v) rest)"

text \<open>\<^verbatim>\<open>re.match(r"^(NK|HNK|ONK|B\<dots>K|GNK)\b", txt)\<close>: one of the prefixes, followed by
  the end of the text or by a character that is not a word character. The bytes of a
  character outside ASCII count as word characters.\<close>

definition is_word :: "char \<Rightarrow> bool" where
  "is_word c =
     (c \<in> set ''abcdefghijklmnopqrstuvwxyzABCDEFGHIJKLMNOPQRSTUVWXYZ0123456789_''
      \<or> (128::nat) \<le> of_char c)"

definition club_prefixes :: "string list" where
  "club_prefixes = [''NK'', ''HNK'', ''ONK'', ''B'' @ [CHR 0xC5, CHR 0xA0] @ ''K'', ''GNK'']"

definition is_club_text :: "string \<Rightarrow> bool" where
  "is_club_text txt =
     list_ex (\<lambda>p. startswith txt p \<and>
                   (case drop (length p) txt of [] \<Rightarrow> True | c # _ \<Rightarrow> \<not> is_word c))
       club_prefixes"

text \<open>The fallback collects the texts in a \<^verbatim>\<open>set\<close>, whose order of iteration Python
  leaves open; here they come in the order in which they first occur.\<close>

definition fallback_teams :: "node \<Rightarrow> team_entry list" where
  "fallback_teams soup =
     map (\<lambda>t. \<lparr>t_name = t, t_url = None, t_crest = None, t_hns_id = None\<rparr>)
       (remdups
          (filter is_club_text
             (map (\<lambda>(q, d). get_text '' '' True d)
                (filter (\<lambda>(q, d). named ''div'' d \<or> named ''li'' d \<or> named ''span'' d)
                   (sub_elements (root soup))))))"

text \<open>\<^verbatim>\<open>soup.find_all("a", href=True)\<close>: the anchors that have an \<^verbatim>\<open>href\<close>.\<close>

definition href_anchors :: "node \<Rightarrow> element list" where
  "href_anchors soup = filter (\<lambda>(q, d). attr d ''href'' \<noteq> None) (find_all (root soup) ''a'')"

definition parse_teams :: "string \<Rightarrow> node \<Rightarrow> team_entry list" where
  "parse_teams base_url soup =
     (let anchors = href_anchors soup;
          teams = collect_teams base_url [] anchors
      in if teams = [] then fallback_teams soup else map snd teams)"

subsection \<open>parse\_fixtures\<close>

text \<open>\<^verbatim>\<open>\d{2}\.\d{2}\.\d{4}\.?\<close>, \<^verbatim>\<open>\d{2}\.\d{2}\.\d{4}\.\<close> and
  \<^verbatim>\<open>(\d+)\s*:\s*(\d+)\<close> (groups: texts 0 and 4).\<close>

definition DATE_RE :: "item list" where
  "DATE_RE = digits 2 @ lits ''.'' @ digits 2 @ lits ''.'' @ digits 4 @ [(Opt, Lit (CHR ''.''))]"

definition DATE_DOT_RE :: "item list" where
  "DATE_DOT_RE = digits 2 @ lits ''.'' @ digits 2 @ lits ''.'' @ digits 4 @ lits ''.''"

definition SCORE_RE :: "item list" where
  "SCORE_RE = [(Plus, Digit), (Star, Space), (One, Lit (CHR '':'')), (Star, Space), (Plus, Digit)]"

text \<open>\<^verbatim>\<open>_parse_datetime_from_context\<close>: \<open>dateparse\<close> is dateutil's parser (day first,
  fuzzy), \<open>None\<close> where it raises.\<close>

definition parse_datetime_from_context :: "(string \<Rightarrow> 'dt option) \<Rightarrow> string \<Rightarrow> 'dt option" where
  "parse_datetime_from_context dateparse text_node =
     dateparse (strip (remove_all ''.'' (strip text_node)))"

text \<open>The loop over the siblings that follow the parent of a date node; it stops after
  the first sibling whose text holds a date.\<close>

fun scan_fixture_siblings :: "'dt option \<Rightarrow> element list \<Rightarrow> 'dt fixture list" where
  "scan_fixture_siblings dt [] = []"
| "scan_fixture_siblings dt (sib # rest) =
     (let anchors = (if is_tag (snd sib) then find_all sib ''a'' else []);
          txt = get_text '' '' True (snd sib);
          found =
            (if length anchors \<ge> 2 \<and> re_search SCORE_RE txt \<noteq> None
             then [\<lparr>fx_date = dt,
                    fx_home = get_text '' '' True (snd (anchors ! 0)),
                    fx_away = get_text '' '' True (snd (anchors ! 1)),
                    fx_home_goals = map_option (\<lambda>(i, m). digits_val (m ! 0)) (re_search SCORE_RE txt),
                    fx_away_goals = map_option (\<lambda>(i, m). digits_val (m ! 4)) (re_search SCORE_RE txt),
                    fx_venue = None,
                    fx_match_url = None\<rparr>]
             else [])
      in if re_search DATE_DOT_RE (get_text [] False (snd sib)) \<noteq> None then found
         else found @ scan_fixture_siblings dt rest)"

definition dated_fixtures :: "(string \<Rightarrow> 'dt option) \<Rightarrow> node \<Rightarrow> 'dt fixture list" where
  "dated_fixtures dateparse soup =
     concat (map (\<lambda>nd. case parent soup nd of
                          None \<Rightarrow> []
                        | Some par \<Rightarrow>
                            scan_fixture_siblings
                              (parse_datetime_from_context dateparse (string_of (snd nd)))
                              (take 40 (next_siblings soup par)))
               (find_all_strings (root soup) (\<lambda>t. re_search DATE_RE t \<noteq> None)))"

text \<open>The fallback: every text node that holds a score, with the first two anchors of
  its parent. The node matched \<open>SCORE_RE\<close> when it was selected, so the second search
  finds the score.\<close>

definition scored_fixtures :: "node \<Rightarrow> 'dt fixture list" where
  "scored_fixtures soup =
     concat (map (\<lambda>nd. case parent soup nd of
                          None \<Rightarrow> []
                        | Some par \<Rightarrow>
                            (let anchors = find_all par ''a''
                             in if length anchors \<ge> 2
                                then (case re_search SCORE_RE (string_of (snd nd)) of
                                        None \<Rightarrow> []
                                      | Some (i, m) \<Rightarrow>
                                          [\<lparr>fx_date = None,
                                            fx_home = get_text [] True (snd (anchors ! 0)),
                                            fx_away = get_text [] True (snd (anchors ! 1)),
                                            fx_home_goals = Some (digits_val (m ! 0)),
                                            fx_away_goals = Some (digits_val (m ! 4)),
                                            fx_venue = None,
                                            fx_match_url = None\<rparr>])
                                else []))
               (find_all_strings (root soup) (\<lambda>t. re_search SCORE_RE t \<noteq> None)))"

definition parse_fixtures :: "(string \<Rightarrow> 'dt option) \<Rightarrow> node \<Rightarrow> 'dt fixture list" where
  "parse_fixtures dateparse soup =
     (let fixtures = dated_fixtures dateparse soup
      in if fixtures = [] then scored_fixtures soup else fixtures)"

subsection \<open>parse\_standings\<close>


definition numeric_cell :: "string list \<Rightarrow> nat \<Rightarrow> int" where
  "numeric_cell tds i = (if i < length tds \<and> isdigit (tds ! i) then digits_val (tds ! i) else 0)"

text \<open>The body of the loop over the rows, on the texts of the row's cells: \<open>None\<close> when
  the row is passed over (no cell, or an exception: a position that is no integer, or
  no second cell).\<close>

definition parse_standings_row :: "string list \<Rightarrow> standing option" where
  "parse_standings_row tds =
     (if tds = [] then None
      else (case py_int (tds ! 0) of
              None \<Rightarrow> None
            | Some pos \<Rightarrow>
                if length tds < 2 then None
                else Some \<lparr>st_position = pos,
                           st_team = tds ! 1,
                           st_played = numeric_cell tds 2,
                           st_wins = numeric_cell tds 3,
                           st_draws = numeric_cell tds 4,
                           st_losses = numeric_cell tds 5,
                           st_goals_for = numeric_cell tds 6,
                           st_goals_against = numeric_cell tds 7,
                           st_points = (if isdigit (last tds) then digits_val (last tds) else 0)\<rparr>))"

definition parse_table_rows :: "string list list \<Rightarrow> standing list" where
  "parse_table_rows rows = List.map_filter parse_standings_row rows"







section \<open>Notions used in the statements\<close>

text \<open>The language of a pattern, apart from the order in which the matcher tries the
  alternatives: a text \<open>conforms\<close> to an item when its length suits the quantifier and
  its characters the class; \<open>matches_as full p s gs\<close> holds when the texts \<open>gs\<close>, one for
  each item of \<open>p\<close>, conform and make up a prefix of \<open>s\<close> (all of \<open>s\<close> with \<open>full\<close>).\<close>

fun conforms :: "item \<Rightarrow> string \<Rightarrow> bool" where
  "conforms (One, c) g = (length g = 1 \<and> list_all (cmatch c) g)"
| "conforms (Opt, c) g = (length g \<le> 1 \<and> list_all (cmatch c) g)"
| "conforms (Star, c) g = list_all (cmatch c) g"
| "conforms (Plus, c) g = (g \<noteq> [] \<and> list_all (cmatch c) g)"
| "conforms (LazyStar, c) g = list_all (cmatch c) g"
| "conforms (LazyPlus, c) g = (g \<noteq> [] \<and> list_all (cmatch c) g)"

definition matches_as :: "bool \<Rightarrow> item list \<Rightarrow> string \<Rightarrow> string list \<Rightarrow> bool" where
  "matches_as full p s gs =
     (list_all2 conforms p gs \<and> take (length (concat gs)) s = concat gs
      \<and> (\<not> full \<or> length (concat gs) = length s))"




text \<open>A document whose only element is an \<^verbatim>\<open>h1\<close> with the given text.\<close>

definition h1_doc :: "string \<Rightarrow> node" where
  "h1_doc t = Tag ''[document]'' [] [Tag ''h1'' [] [NavigableString t]]"

text \<open>The two scorers of the specification's example, in UTF-8, and a minute token:
  digits and an apostrophe.\<close>

definition berkovic :: string where
  "berkovic = ''Bruno Berkovi'' @ [CHR 0xC4, CHR 0x87]"

definition rubesa :: string where
  "rubesa = ''Goran Rube'' @ [CHR 0xC5, CHR 0xA1] @ ''a''"

definition minute_token :: "string \<Rightarrow> string" where
  "minute_token ds = ds @ [CHR 0x27]"


text \<open>The first team, in the order of the dict, whose roster holds the name.\<close>

fun first_roster :: "(string, PlayerInfo list) dict \<Rightarrow> string \<Rightarrow> string option" where
  "first_roster [] nm = None"
| "first_roster ((tm, plist) # rest) nm =
     (if nm \<in> set (map name plist) then Some tm else first_roster rest nm)"

text \<open>A match report with two goals and two team blocks.\<close>

definition match_doc :: node where
  "match_doc = Tag ''[document]'' []
     [Tag ''h1'' [] [NavigableString ''A - B 1:2, L''],
      Tag ''div'' []
        [Tag ''span'' [] [NavigableString ''Suci: X''],
         Tag ''span'' [] [NavigableString ''Ivo''],
         Tag ''span'' [] [NavigableString (minute_token ''14'')],
         Tag ''span'' [] [NavigableString ''Pero''],
         Tag ''span'' [] [NavigableString (minute_token ''20'')]],
      Tag ''div'' [] [NavigableString ''A'', Tag ''h3'' [] [NavigableString ''Ivo'']],
      Tag ''div'' [] [NavigableString ''B'', Tag ''h3'' [] [NavigableString ''Ante'']]]"


text \<open>A player and a goal event with only the name set.\<close>

definition player_named :: "string \<Rightarrow> PlayerInfo" where
  "player_named nm = \<lparr>name = nm, shirt_number = None, position = None, is_captain = False,
                       is_starting = True, events = []\<rparr>"

definition scored :: "string \<Rightarrow> int \<Rightarrow> GoalEvent" where
  "scored nm m = \<lparr>team = [], player = nm, minute = m\<rparr>"










text \<open>The anchors that \<^verbatim>\<open>parse_teams\<close> takes for team links, in document order, each
  with its visible text and the entry the loop stores for it.\<close>

definition team_candidates :: "string \<Rightarrow> node \<Rightarrow> (string \<times> team_entry) list" where
  "team_candidates base_url soup =
     List.map_filter (team_of_anchor base_url)
       (href_anchors soup)"

text \<open>A competition page with four links; the first and the last have the same text.\<close>

definition link :: "string \<Rightarrow> node list \<Rightarrow> node" where
  "link href inner = Tag ''a'' [(''href'', href)] inner"

definition teams_doc :: node where
  "teams_doc = Tag ''[document]'' []
     [link ''/klub/1/nk-a'' [NavigableString ''NK A''],
      link ''/novosti'' [NavigableString ''Novosti''],
      link ''/klub/22/nk-b'' [Tag ''img'' [(''src'', ''b.png'')] [], NavigableString '' NK B ''],
      link ''/klub/3/nk-a'' [Tag ''img'' [(''src'', ''a.png'')] [], NavigableString ''NK A'']]"








text \<open>A page with a date followed by a fixture row, and a page with a score between two
  links and no date.\<close>

definition fixtures_doc :: node where
  "fixtures_doc = Tag ''[document]'' []
     [Tag ''div'' []
        [Tag ''p'' [] [NavigableString ''28.09.2025. 16:00''],
         Tag ''div'' []
           [link ''/klub/1'' [NavigableString ''NK A''],
            Tag ''span'' [] [NavigableString ''2 : 1''],
            link ''/klub/2'' [NavigableString ''NK B''],
            Tag ''span'' [] [NavigableString ''Igraliste Podvornica'']]]]"

definition scores_doc :: node where
  "scores_doc = Tag ''[document]'' []
     [Tag ''p'' []
        [link ''/klub/1'' [NavigableString ''NK A''],
         NavigableString '' 3:0 '',
         link ''/klub/2'' [NavigableString ''NK B'']]]"


text \<open>A match report whose date line names the 31st of February.\<close>

definition bad_date_doc :: node where
  "bad_date_doc = Tag ''[document]'' []
     [Tag ''h1'' [] [NavigableString ''A - B 1:2, L''],
      Tag ''p'' [] [NavigableString ''Stadion, Grad, 31.02.2025. 13:30'']]"


section \<open>The matcher finds what the pattern describes\<close>


lemma matches_as_Nil: "matches_as full [] s [] = (\<not> full \<or> s = [])"
  by (auto simp: matches_as_def)

lemma matches_as_skip:
  "matches_as full r s gs \<Longrightarrow> conforms (q, c) [] \<Longrightarrow> matches_as full ((q, c) # r) s ([] # gs)"
  by (auto simp: matches_as_def)

lemma matches_as_one:
  "matches_as full r xs gs \<Longrightarrow> conforms (q, c) [x] \<Longrightarrow>
   matches_as full ((q, c) # r) (x # xs) ([x] # gs)"
  by (auto simp: matches_as_def)

lemma matches_as_grow:
  "matches_as full ((q, c) # r) xs gs \<Longrightarrow> cmatch c x \<Longrightarrow> q \<in> {Star, LazyStar} \<Longrightarrow>
   q' \<in> {Star, Plus, LazyStar, LazyPlus} \<Longrightarrow>
   matches_as full ((q', c) # r) (x # xs) (grow x gs)"
  by (cases gs) (auto simp: matches_as_def)

lemma re_run_sound: "re_run full p s = Some gs \<Longrightarrow> matches_as full p s gs"
proof (induction full p s arbitrary: gs rule: re_run.induct)
  case (1 full s)
  then show ?case by (auto simp: matches_as_Nil split: if_splits)
next
  case (3 full c r x xs)
  then show ?case by (auto split: if_splits intro!: matches_as_one)
next
  case (4 full c r)
  then show ?case by (auto intro!: matches_as_skip)
next
  case (5 full c r x xs)
  then show ?case
    by (auto split: if_splits option.splits intro!: matches_as_one matches_as_skip)
next
  case (6 full c r)
  then show ?case by (auto intro!: matches_as_skip)
next
  case (7 full c r x xs)
  then show ?case
    by (auto split: if_splits option.splits intro!: matches_as_skip matches_as_grow)
next
  case (9 full c r x xs)
  then show ?case by (auto split: if_splits intro!: matches_as_grow)
next
  case (10 full c r)
  then show ?case by (auto intro!: matches_as_skip)
next
  case (11 full c r x xs)
  then show ?case
    by (auto split: if_splits option.splits intro!: matches_as_skip matches_as_grow)
next
  case (13 full c r x xs)
  then show ?case by (auto split: if_splits intro!: matches_as_grow)
qed simp_all





lemma matches_as_ConsI:
  "conforms i g \<Longrightarrow> matches_as full r s' gs' \<Longrightarrow> matches_as full (i # r) (g @ s') (g # gs')"
  by (simp add: matches_as_def)






section \<open>Lemmas on the header pattern\<close>

lemma digit_not_space: "is_digit c \<Longrightarrow> \<not> is_space c"
  by (auto simp: is_digit_def is_space_def)

lemma colon_class [simp]: "\<not> is_digit (CHR '':'')" "\<not> is_space (CHR '':'')"
  "\<not> is_digit (CHR '','')" "\<not> is_space (CHR '','')"
  "\<not> is_digit (CHR ''-'')" "\<not> is_space (CHR ''-'')"
  "is_space (CHR '' '')" "\<not> is_digit (CHR '' '')"
  by (simp_all add: is_digit_def is_space_def)

lemma cmatch_eta: "cmatch Space = is_space" "cmatch Digit = is_digit"
  by (rule ext, simp)+


lemma strip_trimmed:
  "s \<noteq> [] \<Longrightarrow> \<not> is_space (hd s) \<Longrightarrow> \<not> is_space (last s) \<Longrightarrow> strip s = s"
proof -
  assume a: "s \<noteq> []" "\<not> is_space (hd s)" "\<not> is_space (last s)"
  then have "dropWhile is_space s = s" by (cases s) auto
  moreover from a have "dropWhile is_space (rev s) = rev s"
    by (cases "rev s") (auto simp: last_rev hd_rev [symmetric])
  ultimately show ?thesis by (simp add: strip_def)
qed




















lemma h1_doc_text: "get_text '' '' True (Tag ''h1'' [] [NavigableString t]) = strip t"
  by (simp add: get_text_def stripped_strings_def)







section \<open>Lemmas on the goal scanner\<close>

lemma goal_step_cleared:
  "snd (goal_step st tok) \<noteq> snd st \<Longrightarrow> fst (goal_step st tok) = None"
  by (auto simp: goal_step_def split: option.splits if_splits)

lemma goal_step_emits:
  "snd (goal_step st tok) \<noteq> snd st \<Longrightarrow>
   \<exists>nm. fst st = Some nm \<and> player (last (snd (goal_step st tok))) = nm"
  by (auto simp: goal_step_def split: option.splits if_splits)

lemma goal_step_pending:
  "fst (goal_step st tok) = None \<or> fst (goal_step st tok) = fst st \<or> fst (goal_step st tok) = Some tok"
  by (auto simp: goal_step_def split: option.splits if_splits)

lemma pending_source:
  "fst (foldl goal_step st toks) = None \<or> fst (foldl goal_step st toks) = fst st
   \<or> (\<exists>t \<in> set toks. fst (foldl goal_step st toks) = Some t)"
proof (induction toks arbitrary: st)
  case Nil
  then show ?case by simp
next
  case (Cons a toks)
  from Cons.IH [of "goal_step st a"] goal_step_pending [of st a]
  show ?case by auto
qed

section \<open>Lemmas on the resolution of the scoring team\<close>

lemma register_players_lookup:
  "register_players m tm ps nm =
     (case m nm of Some t \<Rightarrow> Some t
      | None \<Rightarrow> if nm \<in> set (map name ps) then Some tm else None)"
  by (induction ps arbitrary: m) (auto simp: setdefault_def split: option.splits)

lemma player_to_team_lookup:
  "player_to_team m lu nm = (case m nm of Some t \<Rightarrow> Some t | None \<Rightarrow> first_roster lu nm)"
proof (induction lu arbitrary: m)
  case Nil
  then show ?case by (simp split: option.splits)
next
  case (Cons a lu)
  obtain tm ps where a: "a = (tm, ps)" by (cases a)
  show ?case
    by (simp add: a Cons.IH register_players_lookup split: option.splits)
qed

lemma first_roster_key: "first_roster lu nm = Some t \<Longrightarrow> t \<in> fst ` set lu"
  by (induction lu) (auto split: if_splits)

lemma first_roster_None:
  "(first_roster lu nm = None) = list_all (\<lambda>a. nm \<notin> set (map name (snd a))) lu"
  by (induction lu) (auto split: if_splits)

lemma map_fst_dict_set:
  "map fst (dict_set d k v) = (if k \<in> set (map fst d) then map fst d else map fst d @ [k])"
  by (induction d) (auto simp: rev_image_eqI)

lemma keys_dict_set: "fst ` set (dict_set d k v) = insert k (fst ` set d)"
proof -
  have "set (map fst (dict_set d k v)) = insert k (set (map fst d))"
    unfolding map_fst_dict_set by auto
  then show ?thesis by simp
qed

lemma attach_goal_teams_eq:
  "attach_goal_teams gs lu =
     map (\<lambda>g. g\<lparr>team := (case first_roster lu (player g) of Some t \<Rightarrow> t | None \<Rightarrow> ''Unknown'')\<rparr>) gs"
  by (simp add: attach_goal_teams_def player_to_team_lookup)

lemma attach_goal_teams_keys:
  "g \<in> set (attach_goal_teams gs lu) \<Longrightarrow> team g \<in> fst ` set lu \<or> team g = ''Unknown''"
  using first_roster_key [of lu]
  by (auto simp: attach_goal_teams_eq split: option.splits)

lemma scrape_match_goals:
  assumes "scrape_match u soup = Inr md"
  shows "\<exists>gs lu. goals md = attach_goal_teams gs lu
           \<and> fst ` set lu \<subseteq> {home_team md, away_team md}"
proof -
  from assms obtain header v c dt where
    h: "parse_header_info soup = Inr header"
    and d: "parse_datetime_and_venue soup = Inr (v, c, dt)"
    by (auto simp: scrape_match_def split: sum.splits)
  define gs where "gs = parse_goals_block soup
                           [(''home'', hdr_home_team header), (''away'', hdr_away_team header)]"
  define lu0 where "lu0 = dict_set (dict_set [] (hdr_home_team header) [])
                            (hdr_away_team header) ([] :: PlayerInfo list)"
  define lu1 where "lu1 = (if length (iterate_team_blocks soup) \<ge> 1
                                 then dict_set lu0 (hdr_home_team header)
                                        (parse_players_from_team_block soup (iterate_team_blocks soup ! 0))
                                 else lu0)"
  define lu2 where "lu2 = (if length (iterate_team_blocks soup) \<ge> 2
                                 then dict_set lu1 (hdr_away_team header)
                                        (parse_players_from_team_block soup (iterate_team_blocks soup ! 1))
                                 else lu1)"
  have k0: "fst ` set lu0 = {hdr_home_team header, hdr_away_team header}"
    unfolding lu0_def by (auto simp: keys_dict_set)
  have k1: "fst ` set lu1 = {hdr_home_team header, hdr_away_team header}"
    unfolding lu1_def using k0 by (auto simp: keys_dict_set)
  have k2: "fst ` set lu2 = {hdr_home_team header, hdr_away_team header}"
    unfolding lu2_def using k1 by (auto simp: keys_dict_set)
  from assms h d have md: "goals md = attach_goal_teams gs lu2"
      "home_team md = hdr_home_team header" "away_team md = hdr_away_team header"
    by (auto simp: scrape_match_def Let_def gs_def lu0_def lu1_def lu2_def split: if_splits)
  with k2 show ?thesis by auto
qed


section \<open>Lemmas on the standings rows\<close>




lemma parse_table_rows_append:
  "parse_table_rows (xs @ ys) = parse_table_rows xs @ parse_table_rows ys"
  by (simp add: parse_table_rows_def List.map_filter_def)


lemma split_on_from_none:
  "sep \<notin> set s \<Longrightarrow> split_on_from sep cur s = [rev cur @ s]"
  by (induction s arbitrary: cur) auto

lemma isdigit_py_int: "isdigit s \<Longrightarrow> py_int s = Some (digits_val s)"
proof -
  assume a: "isdigit s"
  then obtain c r where s: "s = c # r" by (cases s) (auto simp: isdigit_def)
  from a have d: "\<forall>x \<in> set s. is_digit x" by (simp add: isdigit_def list_all_iff)
  with s have "is_digit (hd s)" "is_digit (last s)" by auto
  with s have "strip s = s" by (simp add: strip_trimmed digit_not_space)
  moreover from d s have "c \<noteq> CHR ''-''" "c \<noteq> CHR ''+''"
    by (auto simp: is_digit_def)
  moreover from d have "CHR ''_'' \<notin> set s" by (auto simp: is_digit_def)
  then have "split_on (CHR ''_'') s = [s]" by (simp add: split_on_def split_on_from_none)
  with a have "int_digits s = Some (digits_val s)" by (simp add: int_digits_def)
  ultimately show ?thesis using s by (simp add: py_int_def)
qed




section \<open>Lemmas on the dict of teams\<close>

lemma collect_teams_foldl:
  "collect_teams base_url teams anchors =
     foldl (\<lambda>d kv. dict_set d (fst kv) (snd kv)) teams
       (List.map_filter (team_of_anchor base_url) anchors)"
  by (induction anchors arbitrary: teams)
     (auto simp: List.map_filter_simps split: option.splits)

lemma map_of_dict_set: "map_of (dict_set d k v) = (map_of d)(k \<mapsto> v)"
  by (induction d) (auto simp: fun_eq_iff)

lemma map_of_foldl_dict_set:
  "map_of (foldl (\<lambda>d kv. dict_set d (fst kv) (snd kv)) d cands) x =
     (case map_of (rev cands) x of Some v \<Rightarrow> Some v | None \<Rightarrow> map_of d x)"
proof (induction cands arbitrary: d)
  case Nil
  then show ?case by simp
next
  case (Cons kv cands)
  obtain k v where kv: "kv = (k, v)" by (cases kv)
  show ?case
    by (simp add: Cons.IH kv map_of_dict_set map_add_def split: option.splits)
qed

lemma distinct_dict_set: "distinct (map fst d) \<Longrightarrow> distinct (map fst (dict_set d k v))"
  by (simp add: map_fst_dict_set)

lemma foldl_dict_set_keys:
  "distinct (map fst d) \<Longrightarrow>
   distinct (map fst (foldl (\<lambda>d kv. dict_set d (fst kv) (snd kv)) d cands))
   \<and> fst ` set (foldl (\<lambda>d kv. dict_set d (fst kv) (snd kv)) d cands) = fst ` set d \<union> fst ` set cands"
proof (induction cands arbitrary: d)
  case Nil
  then show ?case by simp
next
  case (Cons kv cands)
  from Cons.prems have "distinct (map fst (dict_set d (fst kv) (snd kv)))"
    by (rule distinct_dict_set)
  from Cons.IH [OF this] show ?case by (auto simp: keys_dict_set)
qed

lemma team_of_anchor_name: "team_of_anchor base_url a = Some (k, v) \<Longrightarrow> t_name v = k"
  by (auto simp: team_of_anchor_def Let_def split: option.splits if_splits)

lemma set_dict_set: "set (dict_set d k v) \<subseteq> insert (k, v) (set d)"
  by (induction d) (auto split: if_splits)

lemma set_foldl_dict_set:
  "set (foldl (\<lambda>d kv. dict_set d (fst kv) (snd kv)) d cands) \<subseteq> set d \<union> set cands"
proof (induction cands arbitrary: d)
  case Nil
  then show ?case by simp
next
  case (Cons kv cands)
  from Cons.IH [of "dict_set d (fst kv) (snd kv)"] set_dict_set [of d "fst kv" "snd kv"]
  show ?case by auto
qed

lemma candidate_name: "(k, v) \<in> set (team_candidates base_url soup) \<Longrightarrow> t_name v = k"
  by (auto simp: team_candidates_def List.map_filter_def dest: team_of_anchor_name)

lemma collected_teams:
  "collect_teams base_url [] (href_anchors soup)
   = foldl (\<lambda>d kv. dict_set d (fst kv) (snd kv)) [] (team_candidates base_url soup)"
  by (simp add: collect_teams_foldl team_candidates_def)

lemma parse_teams_main:
  assumes "team_candidates base_url soup \<noteq> []"
  shows "\<exists>teams. parse_teams base_url soup = map snd teams
           \<and> distinct (map fst teams)
           \<and> fst ` set teams = fst ` set (team_candidates base_url soup)
           \<and> (\<forall>(k, v) \<in> set teams. t_name v = k
                 \<and> map_of (rev (team_candidates base_url soup)) k = Some v)"
proof -
  define cands where "cands = team_candidates base_url soup"
  define teams where "teams = foldl (\<lambda>d kv. dict_set d (fst kv) (snd kv)) [] cands"
  from foldl_dict_set_keys [of "[]" cands]
  have d: "distinct (map fst teams)" and k: "fst ` set teams = fst ` set cands"
    by (simp_all add: teams_def)
  from assms k have ne: "teams \<noteq> []" by (auto simp: cands_def)
  have p: "parse_teams base_url soup = map snd teams"
    using ne by (simp add: parse_teams_def Let_def collected_teams teams_def cands_def)
  have "\<forall>(k, v) \<in> set teams. t_name v = k \<and> map_of (rev cands) k = Some v"
  proof (intro ballI, clarify)
    fix k v assume m: "(k, v) \<in> set teams"
    with set_foldl_dict_set [of "[]" cands] have "(k, v) \<in> set cands"
      by (auto simp: teams_def)
    then have n: "t_name v = k" unfolding cands_def by (rule candidate_name)
    from d m have "map_of teams k = Some v" by simp
    with map_of_foldl_dict_set [of "[]" cands k] have "map_of (rev cands) k = Some v"
      by (simp add: teams_def split: option.splits)
    with n show "t_name v = k \<and> map_of (rev cands) k = Some v" by simp
  qed
  with p d k show ?thesis unfolding cands_def by blast
qed


section \<open>Lemmas on the shirt number\<close>




section \<open>Lemmas on the fixtures\<close>

lemma scan_fixture_siblings_fields:
  "list_all (\<lambda>f. fx_venue f = None \<and> fx_match_url f = None) (scan_fixture_siblings dt sibs)"
  by (induction sibs) (simp_all add: Let_def)

lemma scan_fixture_siblings_member:
  "f \<in> set (scan_fixture_siblings dt sibs) \<Longrightarrow> fx_venue f = None \<and> fx_match_url f = None"
  using scan_fixture_siblings_fields [of dt sibs] by (simp add: list_all_iff)

lemma dated_fixtures_fields:
  "f \<in> set (dated_fixtures dateparse soup) \<Longrightarrow> fx_venue f = None \<and> fx_match_url f = None"
  by (auto simp: dated_fixtures_def dest: scan_fixture_siblings_member split: option.splits)

lemma list_all_concat_map:
  "(\<And>x. list_all P (g x)) \<Longrightarrow> list_all P (concat (map g xs))"
  by (induction xs) simp_all

lemma scored_fixtures_all:
  "list_all (\<lambda>f. fx_venue f = None \<and> fx_match_url f = None) (scored_fixtures soup)"
  unfolding scored_fixtures_def
  by (rule list_all_concat_map) (simp add: Let_def split: option.splits prod.splits)

lemma scored_fixtures_fields:
  fixes f :: "'dt fixture"
  assumes "f \<in> set (scored_fixtures soup)"
  shows "fx_venue f = None \<and> fx_match_url f = None"
proof -
  have "list_all (\<lambda>f. fx_venue f = None \<and> fx_match_url f = None)
          (scored_fixtures soup :: 'dt fixture list)"
    by (rule scored_fixtures_all)
  with assms show ?thesis by (simp add: list_all_iff)
qed


section \<open>Integers read from matched groups\<close>

text \<open>
  Where the source applies \<^verbatim>\<open>int\<close> to a group captured by \<^verbatim>\<open>\d+\<close>, the definitions above
  read the group with \<^const>\<open>digits_val\<close>. The conversion cannot fail there: such a group
  is a non-empty string of digits, on which \<^const>\<open>py_int\<close> returns that value.
\<close>

lemma conforms_digits: "conforms (Plus, Digit) g \<Longrightarrow> isdigit g"
  by (simp add: isdigit_def cmatch_eta)

lemma header_scores_int:
  assumes "re_match HEADER_RE t = Some m"
  shows "py_int (m ! 6) = Some (digits_val (m ! 6)) \<and> py_int (m ! 8) = Some (digits_val (m ! 8))"
proof -
  from assms have "matches_as False HEADER_RE t m"
    by (simp add: re_match_def re_run_sound)
  then have "list_all2 conforms HEADER_RE m" by (simp add: matches_as_def)
  then obtain g0 g1 g2 g3 g4 g5 g6 g7 g8 g9 g10 g11 where
    "m = [g0, g1, g2, g3, g4, g5, g6, g7, g8, g9, g10, g11]"
    "conforms (Plus, Digit) g6" "conforms (Plus, Digit) g8"
    unfolding HEADER_RE_def list_all2_Cons1 by auto
  then show ?thesis by (simp add: conforms_digits isdigit_py_int)
qed

lemma minute_int:
  assumes "re_fullmatch GOAL_MINUTE_RE token = Some m"
  shows "py_int (m ! 0) = Some (digits_val (m ! 0))"
proof -
  from assms have "matches_as True GOAL_MINUTE_RE token m"
    by (simp add: re_fullmatch_def re_run_sound)
  then have "list_all2 conforms GOAL_MINUTE_RE m" by (simp add: matches_as_def)
  then obtain g0 g1 where "m = [g0, g1]" "conforms (Plus, Digit) g0"
    unfolding GOAL_MINUTE_RE_def list_all2_Cons1 by auto
  then show ?thesis by (simp add: conforms_digits isdigit_py_int)
qed

lemma score_int:
  assumes "re_search_from SCORE_RE i s = Some (k, m)"
  shows "py_int (m ! 0) = Some (digits_val (m ! 0)) \<and> py_int (m ! 4) = Some (digits_val (m ! 4))"
  using assms
proof (induction s arbitrary: i)
  case Nil
  then show ?case by (simp add: SCORE_RE_def)
next
  case (Cons c cs)
  show ?case
  proof (cases "re_run False SCORE_RE (c # cs)")
    case None
    with Cons show ?thesis by simp
  next
    case (Some gs)
    with Cons.prems have "m = gs" by simp
    with Some have "list_all2 conforms SCORE_RE m"
      using re_run_sound [of False SCORE_RE "c # cs" gs] by (simp add: matches_as_def)
    then obtain g0 g1 g2 g3 g4 where "m = [g0, g1, g2, g3, g4]"
      "conforms (Plus, Digit) g0" "conforms (Plus, Digit) g4"
      unfolding SCORE_RE_def list_all2_Cons1 by auto
    then show ?thesis by (simp add: conforms_digits isdigit_py_int)
  qed
qed

section \<open>The claims\<close>






text \<open>
  C4. On the tokens \<^verbatim>\<open>Suci:\<close>, \<^verbatim>\<open>X\<close>, the first scorer, \<^verbatim>\<open>14'\<close>, the second scorer,
  \<^verbatim>\<open>27'\<close> the scanner emits exactly the two goals (first scorer, 14) and (second
  scorer, 27), in that order and with an empty team. On every token sequence, a pass of
  the loop that emits a goal leaves no pending scorer; and when two minute tokens both
  emit a goal, the scorer of the second is a token read after the first, so no candidate
  serves two minute tokens.
\<close>

theorem goal_scanner:
  "scan_goal_tokens
     [''Suci:'', ''X'', berkovic, minute_token ''14'', rubesa, minute_token ''27'']
   = [\<lparr>team = [], player = berkovic, minute = 14\<rparr>,
      \<lparr>team = [], player = rubesa, minute = 27\<rparr>]
   \<and> (\<forall>st tok. snd (goal_step st tok) \<noteq> snd st \<longrightarrow> fst (goal_step st tok) = None)
   \<and> (\<forall>pre m1 mid m2.
         snd (goal_step (foldl goal_step (None, []) pre) m1)
           \<noteq> snd (foldl goal_step (None, []) pre)
         \<and> snd (foldl goal_step (None, []) (pre @ m1 # mid @ [m2]))
           \<noteq> snd (foldl goal_step (None, []) (pre @ m1 # mid))
         \<longrightarrow> player (last (scan_goal_tokens (pre @ m1 # mid @ [m2]))) \<in> set mid)"
proof (intro conjI allI impI)
  show "scan_goal_tokens
     [''Suci:'', ''X'', berkovic, minute_token ''14'', rubesa, minute_token ''27'']
   = [\<lparr>team = [], player = berkovic, minute = 14\<rparr>,
      \<lparr>team = [], player = rubesa, minute = 27\<rparr>]"
    by code_simp
next
  fix st tok
  assume "snd (goal_step st tok) \<noteq> snd st"
  then show "fst (goal_step st tok) = None" by (rule goal_step_cleared)
next
  fix pre m1 mid m2
  define s1 where "s1 = foldl goal_step (None, []) pre"
  define s2 where "s2 = goal_step s1 m1"
  define s3 where "s3 = foldl goal_step s2 mid"
  assume "snd (goal_step (foldl goal_step (None, []) pre) m1)
           \<noteq> snd (foldl goal_step (None, []) pre)
         \<and> snd (foldl goal_step (None, []) (pre @ m1 # mid @ [m2]))
           \<noteq> snd (foldl goal_step (None, []) (pre @ m1 # mid))"
  then have e1: "snd (goal_step s1 m1) \<noteq> snd s1"
    and e2: "snd (goal_step s3 m2) \<noteq> snd s3"
    by (simp_all add: s1_def s2_def s3_def)
  from e1 have c: "fst s2 = None" unfolding s2_def by (rule goal_step_cleared)
  from goal_step_emits [OF e2] obtain nm where
    nm: "fst s3 = Some nm" "player (last (snd (goal_step s3 m2))) = nm" by blast
  from pending_source [of s2 mid] c nm(1) have "nm \<in> set mid"
    by (auto simp: s3_def)
  moreover have "scan_goal_tokens (pre @ m1 # mid @ [m2]) = snd (goal_step s3 m2)"
    by (simp add: scan_goal_tokens_def s1_def s2_def s3_def)
  ultimately show "player (last (scan_goal_tokens (pre @ m1 # mid @ [m2]))) \<in> set mid"
    using nm(2) by simp
qed

theorem goal_scanner_witness:
  "fst (goal_step (Some ''X'', []) (minute_token ''14'')) = None
   \<and> player (last (scan_goal_tokens [''X'', minute_token ''14'', ''Suci: A'', ''Y'', minute_token ''27''])) 
       \<in> set [''Suci: A'', ''Y'']
   \<and> scan_goal_tokens [''X'', minute_token ''14'', minute_token ''27'']
       = [\<lparr>team = [], player = ''X'', minute = 14\<rparr>]"
proof -
  have a: "snd (goal_step (Some ''X'', []) (minute_token ''14'')) \<noteq> snd (Some ''X'', [])"
    by code_simp
  have b: "snd (goal_step (foldl goal_step (None, []) [''X'']) (minute_token ''14''))
           \<noteq> snd (foldl goal_step (None, []) [''X''])
         \<and> snd (foldl goal_step (None, []) ([''X''] @ minute_token ''14'' # [''Suci: A'', ''Y''] @ [minute_token ''27'']))
           \<noteq> snd (foldl goal_step (None, []) ([''X''] @ minute_token ''14'' # [''Suci: A'', ''Y'']))"
    by code_simp
  have c: "scan_goal_tokens [''X'', minute_token ''14'', minute_token ''27'']
       = [\<lparr>team = [], player = ''X'', minute = 14\<rparr>]"
    by code_simp
  from goal_scanner a have 1: "fst (goal_step (Some ''X'', []) (minute_token ''14'')) = None"
    by blast
  from goal_scanner b have
    "player (last (scan_goal_tokens ([''X''] @ minute_token ''14'' # [''Suci: A'', ''Y''] @ [minute_token ''27''])))
       \<in> set [''Suci: A'', ''Y'']"
    by blast
  with 1 c show ?thesis by simp
qed

text \<open>
  C5. \<^verbatim>\<open>_attach_goal_teams\<close> gives every goal the first team, in the order of the
  lineups dict, whose roster holds the scorer's name, and \<^verbatim>\<open>Unknown\<close> when no roster
  holds it; so every team is a key of the dict or \<^verbatim>\<open>Unknown\<close>. With the keys home and
  away, in this order, a name in the home roster resolves to home even when the away
  roster holds it too. The goals that \<^verbatim>\<open>scrape_match\<close> returns have the home team, the
  away team or \<^verbatim>\<open>Unknown\<close> as their team.
\<close>

theorem attach_goal_teams_resolves:
  "attach_goal_teams gs lu =
     map (\<lambda>g. g\<lparr>team := (case first_roster lu (player g) of Some t \<Rightarrow> t | None \<Rightarrow> ''Unknown'')\<rparr>) gs
   \<and> (\<forall>g \<in> set (attach_goal_teams gs lu). team g \<in> fst ` set lu \<or> team g = ''Unknown'')
   \<and> (\<forall>g \<in> set (attach_goal_teams gs [(h, hp), (a, ap)]).
         team g = (if player g \<in> set (map name hp) then h
                   else if player g \<in> set (map name ap) then a else ''Unknown''))
   \<and> (\<forall>md. scrape_match u soup = Inr md \<longrightarrow>
         (\<forall>g \<in> set (goals md).
            team g = home_team md \<or> team g = away_team md \<or> team g = ''Unknown''))"
proof (intro conjI ballI allI impI)
  show "attach_goal_teams gs lu =
     map (\<lambda>g. g\<lparr>team := (case first_roster lu (player g) of Some t \<Rightarrow> t | None \<Rightarrow> ''Unknown'')\<rparr>) gs"
    by (rule attach_goal_teams_eq)
next
  fix g assume "g \<in> set (attach_goal_teams gs lu)"
  then show "team g \<in> fst ` set lu \<or> team g = ''Unknown''"
    by (rule attach_goal_teams_keys)
next
  fix g assume "g \<in> set (attach_goal_teams gs [(h, hp), (a, ap)])"
  then obtain x where x: "g = x\<lparr>team := (case first_roster [(h, hp), (a, ap)] (player x) of
                                        Some t \<Rightarrow> t | None \<Rightarrow> ''Unknown'')\<rparr>"
    unfolding attach_goal_teams_eq by auto
  have f: "first_roster [(h, hp), (a, ap)] (player x) =
             (if player x \<in> set (map name hp) then Some h
              else if player x \<in> set (map name ap) then Some a else None)"
    by simp
  from x have p: "player g = player x" by simp
  from x have "team g = (case first_roster [(h, hp), (a, ap)] (player x) of
                                        Some t \<Rightarrow> t | None \<Rightarrow> ''Unknown'')" by simp
  then show "team g = (if player g \<in> set (map name hp) then h
                   else if player g \<in> set (map name ap) then a else ''Unknown'')"
    unfolding f p by (simp split: if_splits)
next
  fix md g assume m: "scrape_match u soup = Inr md" and g: "g \<in> set (goals md)"
  from scrape_match_goals [OF m] obtain gs' lu' where
    "goals md = attach_goal_teams gs' lu'" "fst ` set lu' \<subseteq> {home_team md, away_team md}"
    by blast
  with g attach_goal_teams_keys [of g gs' lu']
  show "team g = home_team md \<or> team g = away_team md \<or> team g = ''Unknown''"
    by auto
qed

theorem attach_goal_teams_resolves_witness:
  "attach_goal_teams [scored ''Ivo'' 14, scored ''Pero'' 20, scored ''Ante'' 30]
       [(''A'', [player_named ''Ivo'', player_named ''Ante'']), (''B'', [player_named ''Ante''])]
     = [\<lparr>team = ''A'', player = ''Ivo'', minute = 14\<rparr>,
        \<lparr>team = ''Unknown'', player = ''Pero'', minute = 20\<rparr>,
        \<lparr>team = ''A'', player = ''Ante'', minute = 30\<rparr>]
   \<and> list_all (\<lambda>g. team g = ''A'' \<or> team g = ''B'' \<or> team g = ''Unknown'')
        (case scrape_match ''u'' match_doc of Inr md \<Rightarrow> goals md | Inl e \<Rightarrow> [])
   \<and> map team (case scrape_match ''u'' match_doc of Inr md \<Rightarrow> goals md | Inl e \<Rightarrow> [])
        = [''A'', ''Unknown'']"
proof -
  define md where "md = \<lparr>url = ''u'', competition = Some ''L'', home_team = ''A'',
        away_team = ''B'', home_score = 1, away_score = 2, venue = None,
        city = None, date_time = None,
        goals = [\<lparr>team = ''A'', player = ''Ivo'', minute = 14\<rparr>,
                 \<lparr>team = ''Unknown'', player = ''Pero'', minute = 20\<rparr>],
        lineups = [(''A'', [player_named ''Ivo'']), (''B'', [player_named ''Ante''])]\<rparr>"
  have s: "scrape_match ''u'' match_doc = Inr md"
    unfolding md_def by code_simp
  from attach_goal_teams_resolves
    [of "[scored ''Ivo'' 14, scored ''Pero'' 20, scored ''Ante'' 30]"
        "[(''A'', [player_named ''Ivo'', player_named ''Ante'']), (''B'', [player_named ''Ante''])]"
        "''A''" "[]" "''B''" "[]" "''u''" match_doc]
  have 1: "attach_goal_teams [scored ''Ivo'' 14, scored ''Pero'' 20, scored ''Ante'' 30]
       [(''A'', [player_named ''Ivo'', player_named ''Ante'']), (''B'', [player_named ''Ante''])]
     = [\<lparr>team = ''A'', player = ''Ivo'', minute = 14\<rparr>,
        \<lparr>team = ''Unknown'', player = ''Pero'', minute = 20\<rparr>,
        \<lparr>team = ''A'', player = ''Ante'', minute = 30\<rparr>]"
    and 2: "\<forall>g \<in> set (goals md). team g = home_team md \<or> team g = away_team md \<or> team g = ''Unknown''"
    using s by (simp_all add: scored_def player_named_def)
  from 2 have "list_all (\<lambda>g. team g = ''A'' \<or> team g = ''B'' \<or> team g = ''Unknown'') (goals md)"
    by (simp add: md_def)
  with 1 s show ?thesis by (simp add: md_def)
qed






text \<open>
  C8 (amended). \<^verbatim>\<open>parse_teams\<close> returns one entry for each distinct visible name. When
  some anchor is taken for a team link, the names of the result are the names of these
  anchors, and the entry of a name is the one extracted from the last anchor with that
  name (address, crest and id).
\<close>

theorem parse_teams_dedup:
  "distinct (map t_name (parse_teams base_url soup))
   \<and> (team_candidates base_url soup \<noteq> [] \<longrightarrow>
        set (map t_name (parse_teams base_url soup)) = fst ` set (team_candidates base_url soup)
        \<and> (\<forall>e \<in> set (parse_teams base_url soup).
              map_of (rev (team_candidates base_url soup)) (t_name e) = Some e))"
proof (cases "team_candidates base_url soup = []")
  case True
  then have "collect_teams base_url [] (href_anchors soup) = []"
    by (simp add: collected_teams)
  then have "parse_teams base_url soup = fallback_teams soup"
    by (simp add: parse_teams_def)
  then have "distinct (map t_name (parse_teams base_url soup))"
    by (simp add: fallback_teams_def comp_def)
  with True show ?thesis by simp
next
  case False
  from parse_teams_main [OF False] obtain teams where
    t: "parse_teams base_url soup = map snd teams" "distinct (map fst teams)"
       "fst ` set teams = fst ` set (team_candidates base_url soup)"
       "\<forall>(k, v) \<in> set teams. t_name v = k
                 \<and> map_of (rev (team_candidates base_url soup)) k = Some v"
    by blast
  from t(4) have n: "map (\<lambda>x. t_name (snd x)) teams = map fst teams" by auto
  from t(1) have "map t_name (parse_teams base_url soup) = map (\<lambda>x. t_name (snd x)) teams"
    by (simp add: comp_def)
  with n have m: "map t_name (parse_teams base_url soup) = map fst teams" by simp
  from m t(2) have 1: "distinct (map t_name (parse_teams base_url soup))" by simp
  from m t(3) have 2: "set (map t_name (parse_teams base_url soup))
                        = fst ` set (team_candidates base_url soup)"
    by (metis set_map)
  from t(1,4) have 3: "\<forall>e \<in> set (parse_teams base_url soup).
              map_of (rev (team_candidates base_url soup)) (t_name e) = Some e"
    by auto
  from 1 2 3 show ?thesis by blast
qed

theorem parse_teams_dedup_witness:
  "team_candidates ''base'' teams_doc \<noteq> []
   \<and> map t_name (parse_teams ''base'' teams_doc) = [''NK A'', ''NK B'']
   \<and> map_of (rev (team_candidates ''base'' teams_doc)) ''NK A''
       = Some \<lparr>t_name = ''NK A'', t_url = Some (UrlJoin ''base'' ''/klub/3/nk-a''),
               t_crest = Some (UrlJoin ''base'' ''a.png''), t_hns_id = Some ''3''\<rparr>"
proof -
  have a: "team_candidates ''base'' teams_doc \<noteq> []" by code_simp
  have b: "\<lparr>t_name = ''NK A'', t_url = Some (UrlJoin ''base'' ''/klub/3/nk-a''),
               t_crest = Some (UrlJoin ''base'' ''a.png''), t_hns_id = Some ''3''\<rparr>
           \<in> set (parse_teams ''base'' teams_doc)"
    by code_simp
  have c: "map t_name (parse_teams ''base'' teams_doc) = [''NK A'', ''NK B'']" by code_simp
  from parse_teams_dedup [of "''base''" teams_doc] a b
  have "map_of (rev (team_candidates ''base'' teams_doc))
          (t_name \<lparr>t_name = ''NK A'', t_url = Some (UrlJoin ''base'' ''/klub/3/nk-a''),
               t_crest = Some (UrlJoin ''base'' ''a.png''), t_hns_id = Some ''3''\<rparr>)
       = Some \<lparr>t_name = ''NK A'', t_url = Some (UrlJoin ''base'' ''/klub/3/nk-a''),
               t_crest = Some (UrlJoin ''base'' ''a.png''), t_hns_id = Some ''3''\<rparr>"
    by blast
  with a c show ?thesis by simp
qed

text \<open>
  C8 as stated fails when two anchors share their text: the entry returned for
  \<^verbatim>\<open>NK A\<close> has the address, the crest and the id of the last anchor, and the first
  anchor with that text, on its own, gives another address, no crest and another id.
\<close>

theorem parse_teams_first_anchor_counterexample:
  "parse_teams ''base'' teams_doc
     = [\<lparr>t_name = ''NK A'', t_url = Some (UrlJoin ''base'' ''/klub/3/nk-a''),
          t_crest = Some (UrlJoin ''base'' ''a.png''), t_hns_id = Some ''3''\<rparr>,
        \<lparr>t_name = ''NK B'', t_url = Some (UrlJoin ''base'' ''/klub/22/nk-b''),
          t_crest = Some (UrlJoin ''base'' ''b.png''), t_hns_id = Some ''22''\<rparr>]
   \<and> hd (href_anchors teams_doc) = ([0], link ''/klub/1/nk-a'' [NavigableString ''NK A''])
   \<and> team_of_anchor ''base'' (hd (href_anchors teams_doc))
     = Some (''NK A'',
             \<lparr>t_name = ''NK A'', t_url = Some (UrlJoin ''base'' ''/klub/1/nk-a''),
               t_crest = None, t_hns_id = Some ''1''\<rparr>)"
  by code_simp




text \<open>
  C10. Every fixture that \<^verbatim>\<open>parse_fixtures\<close> returns, on the path that starts from the
  dates and on the fallback that starts from the scores, has no venue and no match
  address.
\<close>

theorem fixtures_without_venue:
  "\<forall>f \<in> set (parse_fixtures dateparse soup). fx_venue f = None \<and> fx_match_url f = None"
proof
  fix f assume "f \<in> set (parse_fixtures dateparse soup)"
  then have "f \<in> set (dated_fixtures dateparse soup) \<or> f \<in> set (scored_fixtures soup)"
    by (simp add: parse_fixtures_def Let_def split: if_splits)
  then show "fx_venue f = None \<and> fx_match_url f = None"
    using dated_fixtures_fields scored_fixtures_fields by blast
qed

theorem fixtures_without_venue_witness:
  "parse_fixtures (Some :: string \<Rightarrow> string option) fixtures_doc
     = [\<lparr>fx_date = Some ''28092025 16:00'', fx_home = ''NK A'', fx_away = ''NK B'',
          fx_home_goals = Some 2, fx_away_goals = Some 1, fx_venue = None,
          fx_match_url = None\<rparr>]
   \<and> fx_venue (hd (parse_fixtures (Some :: string \<Rightarrow> string option) fixtures_doc)) = None
   \<and> fx_match_url (hd (parse_fixtures (Some :: string \<Rightarrow> string option) scores_doc)) = None
   \<and> length (parse_fixtures (Some :: string \<Rightarrow> string option) scores_doc) = 1"
proof -
  have a: "parse_fixtures (Some :: string \<Rightarrow> string option) fixtures_doc
     = [\<lparr>fx_date = Some ''28092025 16:00'', fx_home = ''NK A'', fx_away = ''NK B'',
          fx_home_goals = Some 2, fx_away_goals = Some 1, fx_venue = None,
          fx_match_url = None\<rparr>]"
    by code_simp
  have b: "length (parse_fixtures (Some :: string \<Rightarrow> string option) scores_doc) = 1"
    by code_simp
  from a have m1: "hd (parse_fixtures (Some :: string \<Rightarrow> string option) fixtures_doc)
                    \<in> set (parse_fixtures (Some :: string \<Rightarrow> string option) fixtures_doc)"
    by simp
  from b have m2: "hd (parse_fixtures (Some :: string \<Rightarrow> string option) scores_doc)
                    \<in> set (parse_fixtures (Some :: string \<Rightarrow> string option) scores_doc)"
    by (cases "parse_fixtures (Some :: string \<Rightarrow> string option) scores_doc") simp_all
  from fixtures_without_venue [of "Some :: string \<Rightarrow> string option" fixtures_doc] m1
  have 1: "fx_venue (hd (parse_fixtures (Some :: string \<Rightarrow> string option) fixtures_doc)) = None"
    by blast
  from fixtures_without_venue [of "Some :: string \<Rightarrow> string option" scores_doc] m2
  have 2: "fx_match_url (hd (parse_fixtures (Some :: string \<Rightarrow> string option) scores_doc)) = None"
    by blast
  from a b 1 2 show ?thesis by blast
qed

text \<open>
  C2 (what the code does where the claim fails). When the header and the date line
  parse and no team block is found, \<^verbatim>\<open>scrape_match\<close> raises \<^verbatim>\<open>IndexError\<close>: the
  \<^verbatim>\<open>print\<close> of \<^verbatim>\<open>team_blocks[0]\<close> stands before the two assignments that are guarded
  by the length of \<^verbatim>\<open>team_blocks\<close>. The claim says that \<^verbatim>\<open>scrape_match\<close> never raises
  once the header has parsed.
\<close>

theorem scrape_match_without_team_blocks:
  assumes "parse_header_info soup = Inr header"
    and "parse_datetime_and_venue soup = Inr place"
    and "iterate_team_blocks soup = []"
  shows "scrape_match u soup = Inl IndexError"
proof -
  obtain v c dt where "place = (v, c, dt)" by (cases place)
  with assms show ?thesis by (simp add: scrape_match_def Let_def)
qed

theorem scrape_match_without_team_blocks_witness:
  "parse_header_info (h1_doc ''A - B 1:2, L'')
     = Inr \<lparr>hdr_home_team = ''A'', hdr_away_team = ''B'', hdr_home_score = 1,
            hdr_away_score = 2, hdr_competition = ''L''\<rparr>
   \<and> iterate_team_blocks (h1_doc ''A - B 1:2, L'') = []
   \<and> scrape_match ''https://semafor.hns.family/utakmice/1/'' (h1_doc ''A - B 1:2, L'')
     = Inl IndexError"
proof -
  have a: "parse_header_info (h1_doc ''A - B 1:2, L'')
     = Inr \<lparr>hdr_home_team = ''A'', hdr_away_team = ''B'', hdr_home_score = 1,
            hdr_away_score = 2, hdr_competition = ''L''\<rparr>"
    by code_simp
  have b: "parse_datetime_and_venue (h1_doc ''A - B 1:2, L'') = Inr (None, None, None)"
    by code_simp
  have c: "iterate_team_blocks (h1_doc ''A - B 1:2, L'') = []"
    by code_simp
  from scrape_match_without_team_blocks [OF a b c] a c show ?thesis by simp
qed

text \<open>A second way for \<^verbatim>\<open>scrape_match\<close> to raise after the header has parsed: a date
  line that matches the pattern and names a day the month does not have makes
  \<^verbatim>\<open>strptime\<close> raise \<^verbatim>\<open>ValueError\<close> in \<^verbatim>\<open>_parse_datetime_and_venue\<close>.\<close>

lemma scrape_match_bad_date:
  "parse_header_info bad_date_doc
     = Inr \<lparr>hdr_home_team = ''A'', hdr_away_team = ''B'', hdr_home_score = 1,
            hdr_away_score = 2, hdr_competition = ''L''\<rparr>
   \<and> parse_datetime_and_venue bad_date_doc = Inl ValueError
   \<and> scrape_match ''https://semafor.hns.family/utakmice/1/'' bad_date_doc = Inl ValueError"
  by code_simp

end
